theory Spec2Isabelle
  imports Complex_Main "HOL-Library.Sublist" "HOL-Library.Log_Nat"
begin

section \<open>JavaScript values used by the property page\<close>

subsection \<open>Numbers\<close>

text \<open>
  A JavaScript \<^verbatim>\<open>number\<close> is an IEEE 754 double: a finite value, one of the two
  infinities, or \<^verbatim>\<open>NaN\<close>. \<open>Num r\<close> stands for the double whose value is the real
  \<open>r\<close>. The sign of zero is not modelled: \<^verbatim>\<open>-0\<close> equals \<^verbatim>\<open>0\<close>, is falsy like
  \<^verbatim>\<open>0\<close>, and no sum that starts from \<^verbatim>\<open>0\<close> produces it.
\<close>

datatype jsnum = Num real | PosInfinity | NegInfinity | NaN

text \<open>
  The binary exponent of a non-zero real: the \<open>e\<close> with \<open>2 powi e \<le> \<bar>x\<bar>\<close> and \<open>\<bar>x\<bar> < 2 powi (e + 1)\<close>,
  computed on integers from the bit length.
\<close>

definition exponent :: "real \<Rightarrow> int" where
  "exponent x =
     (if 1 \<le> \<bar>x\<bar> then bitlen \<lfloor>\<bar>x\<bar>\<rfloor> - 1
      else - bitlen (\<lceil>1 / \<bar>x\<bar>\<rceil> - 1))"

text \<open>Rounding to the nearest integer, a tie going to the even one.\<close>

definition round_half_even :: "real \<Rightarrow> int" where
  "round_half_even q =
     (let n = \<lfloor>q\<rfloor>; r = q - of_int n
      in if r < 1 / 2 then n else if 1 / 2 < r then n + 1 else if even n then n else n + 1)"

text \<open>
  The result of an arithmetic operation whose exact value is \<open>x\<close>: the nearest double
  (53 significant bits, exponents from -1022 to 1023, subnormals below), ties to even,
  and an infinity when the rounded value reaches \<open>2 powi 1024\<close>.
\<close>

definition round_to_double :: "real \<Rightarrow> jsnum" where
  "round_to_double x =
     (if x = 0 then Num 0
      else
        let e = max (exponent x) (- 1022);
            ulp = 2 powi (e - 52);
            r = of_int (round_half_even (x / ulp)) * ulp
        in if 2 powi 1024 \<le> \<bar>r\<bar> then (if 0 < x then PosInfinity else NegInfinity)
           else Num r)"

text \<open>
  \<^verbatim>\<open>a + b\<close> on numbers. \<^verbatim>\<open>NaN\<close> is absorbing, infinities of opposite sign give
  \<^verbatim>\<open>NaN\<close>, an infinity absorbs every finite number, and two finite numbers give the
  rounded exact sum. Adding zero returns the other operand, which on doubles is what
  rounding the exact sum gives.
\<close>

fun js_add :: "jsnum \<Rightarrow> jsnum \<Rightarrow> jsnum" where
  "js_add NaN _ = NaN"
| "js_add _ NaN = NaN"
| "js_add PosInfinity NegInfinity = NaN"
| "js_add NegInfinity PosInfinity = NaN"
| "js_add PosInfinity _ = PosInfinity"
| "js_add _ PosInfinity = PosInfinity"
| "js_add NegInfinity _ = NegInfinity"
| "js_add _ NegInfinity = NegInfinity"
| "js_add (Num a) (Num b) =
     (if b = 0 then Num a else if a = 0 then Num b else round_to_double (a + b))"

fun js_neg :: "jsnum \<Rightarrow> jsnum" where
  "js_neg (Num a) = Num (- a)"
| "js_neg PosInfinity = NegInfinity"
| "js_neg NegInfinity = PosInfinity"
| "js_neg NaN = NaN"

text \<open>\<^verbatim>\<open>a - b\<close> on numbers, which on doubles is \<^verbatim>\<open>a + (-b)\<close>.\<close>

definition js_sub :: "jsnum \<Rightarrow> jsnum \<Rightarrow> jsnum" where
  "js_sub a b = js_add a (js_neg b)"

text \<open>
  \<^verbatim>\<open>x || 0\<close> on an optional number: \<^verbatim>\<open>undefined\<close>, \<^verbatim>\<open>NaN\<close> and \<^verbatim>\<open>0\<close> are
  falsy and give \<^verbatim>\<open>0\<close>, every other number, the infinities included, is kept.
\<close>

fun or_zero :: "jsnum option \<Rightarrow> jsnum" where
  "or_zero None = Num 0"
| "or_zero (Some NaN) = Num 0"
| "or_zero (Some (Num a)) = (if a = 0 then Num 0 else Num a)"
| "or_zero (Some PosInfinity) = PosInfinity"
| "or_zero (Some NegInfinity) = NegInfinity"

subsection \<open>Dates\<close>

text \<open>
  A \<^verbatim>\<open>Date\<close> object holds a time value in milliseconds since the epoch, or is an
  Invalid Date (time value \<^verbatim>\<open>NaN\<close>).
\<close>

datatype jsdate = InvalidDate | Time int

text \<open>
  \<^verbatim>\<open>a < b\<close> and \<^verbatim>\<open>a > b\<close> on two \<^verbatim>\<open>Date\<close> objects compare the time values as
  numbers; a comparison with \<^verbatim>\<open>NaN\<close> is false.
\<close>

fun date_lt :: "jsdate \<Rightarrow> jsdate \<Rightarrow> bool" where
  "date_lt (Time a) (Time b) = (a < b)"
| "date_lt _ _ = False"

fun date_gt :: "jsdate \<Rightarrow> jsdate \<Rightarrow> bool" where
  "date_gt (Time a) (Time b) = (a > b)"
| "date_gt _ _ = False"

subsection \<open>The Date constructor on a string\<close>

definition digit :: "char \<Rightarrow> nat option" where
  "digit c = (let n = (of_char c :: nat) in if 48 \<le> n \<and> n \<le> 57 then Some (n - 48) else None)"

fun digits_acc :: "nat \<Rightarrow> string \<Rightarrow> nat option" where
  "digits_acc a [] = Some a"
| "digits_acc a (c # cs) = (case digit c of None \<Rightarrow> None | Some d \<Rightarrow> digits_acc (10 * a + d) cs)"

text \<open>A field of exactly \<open>n\<close> decimal digits.\<close>

definition number :: "nat \<Rightarrow> string \<Rightarrow> int option" where
  "number n s = (if length s = n then map_option int (digits_acc 0 s) else None)"

definition is_leap :: "int \<Rightarrow> bool" where
  "is_leap y = (if y mod 400 = 0 then True else if y mod 100 = 0 then False else y mod 4 = 0)"

definition days_in_month :: "int \<Rightarrow> int \<Rightarrow> int" where
  "days_in_month y m =
     (if m = 2 then (if is_leap y then 29 else 28)
      else if m = 4 \<or> m = 6 \<or> m = 9 \<or> m = 11 then 30 else 31)"

text \<open>Days from 1970-01-01 to the given day of the proleptic Gregorian calendar.\<close>

definition days_from_civil :: "int \<Rightarrow> int \<Rightarrow> int \<Rightarrow> int" where
  "days_from_civil y m d =
     (let y' = (if m \<le> 2 then y - 1 else y);
          era = y' div 400;
          yoe = y' - era * 400;
          mp = (if m > 2 then m - 3 else m + 9);
          doy = (153 * mp + 2) div 5 + d - 1;
          doe = yoe * 365 + yoe div 4 - yoe div 100 + doy
      in era * 146097 + doe - 719468)"

text \<open>The inverse: year, month and day of a day number.\<close>

definition civil_from_days :: "int \<Rightarrow> int \<times> int \<times> int" where
  "civil_from_days z =
     (let z' = z + 719468;
          era = z' div 146097;
          doe = z' - era * 146097;
          yoe = (doe - doe div 1460 + doe div 36524 - doe div 146096) div 365;
          doy = doe - (365 * yoe + yoe div 4 - yoe div 100);
          mp = (5 * doy + 2) div 153;
          d = doy - (153 * mp + 2) div 5 + 1;
          m = (if mp < 10 then mp + 3 else mp - 9);
          y = yoe + era * 400
      in (if m \<le> 2 then y + 1 else y, m, d))"

definition ms_per_day :: int where
  "ms_per_day = 86400000"

text \<open>The day number of a day that exists in the calendar.\<close>

definition day_number :: "int \<Rightarrow> int \<Rightarrow> int \<Rightarrow> int option" where
  "day_number y m d =
     (if 1 \<le> m \<and> m \<le> 12 \<and> 1 \<le> d \<and> d \<le> days_in_month y m
      then Some (days_from_civil y m d) else None)"

text \<open>The date forms \<^verbatim>\<open>YYYY\<close>, \<^verbatim>\<open>YYYY-MM\<close> and \<^verbatim>\<open>YYYY-MM-DD\<close>.\<close>

definition parse_date :: "string \<Rightarrow> int option" where
  "parse_date s =
     (if length s = 4 then
        (case number 4 s of Some y \<Rightarrow> day_number y 1 1 | None \<Rightarrow> None)
      else if length s = 7 \<and> s ! 4 = CHR ''-'' then
        (case (number 4 (take 4 s), number 2 (drop 5 s)) of
           (Some y, Some m) \<Rightarrow> day_number y m 1
         | _ \<Rightarrow> None)
      else if length s = 10 \<and> s ! 4 = CHR ''-'' \<and> s ! 7 = CHR ''-'' then
        (case (number 4 (take 4 s), number 2 (take 2 (drop 5 s)), number 2 (drop 8 s)) of
           (Some y, Some m, Some d) \<Rightarrow> day_number y m d
         | _ \<Rightarrow> None)
      else None)"

text \<open>
  Milliseconds into the day, when every field was read and is in range; \<^verbatim>\<open>24:00:00\<close>
  is the end of the day.
\<close>

definition time_of :: "int option \<Rightarrow> int option \<Rightarrow> int option \<Rightarrow> int option \<Rightarrow> int option" where
  "time_of h mi sec ms =
     (case (h, mi, sec, ms) of
        (Some h', Some mi', Some sec', Some ms') \<Rightarrow>
          (if (h' \<le> 23 \<and> mi' \<le> 59 \<and> sec' \<le> 59) \<or> (h' = 24 \<and> mi' = 0 \<and> sec' = 0 \<and> ms' = 0)
           then Some (((h' * 60 + mi') * 60 + sec') * 1000 + ms') else None)
      | _ \<Rightarrow> None)"

text \<open>The time forms \<^verbatim>\<open>HH:mm\<close>, \<^verbatim>\<open>HH:mm:ss\<close> and \<^verbatim>\<open>HH:mm:ss.sss\<close>.\<close>

definition parse_time :: "string \<Rightarrow> int option" where
  "parse_time s =
     (if 5 \<le> length s \<and> s ! 2 = CHR '':'' then
        (let h = number 2 (take 2 s); mi = number 2 (take 2 (drop 3 s))
         in if length s = 5 then time_of h mi (Some 0) (Some 0)
            else if length s = 8 \<and> s ! 5 = CHR '':'' then
              time_of h mi (number 2 (drop 6 s)) (Some 0)
            else if length s = 12 \<and> s ! 5 = CHR '':'' \<and> s ! 8 = CHR ''.'' then
              time_of h mi (number 2 (take 2 (drop 6 s))) (number 3 (drop 9 s))
            else None)
      else None)"

text \<open>The UTC offset \<^verbatim>\<open>Z\<close>, \<^verbatim>\<open>+HH:mm\<close> or \<^verbatim>\<open>-HH:mm\<close>, in milliseconds.\<close>

definition parse_offset :: "string \<Rightarrow> int option" where
  "parse_offset s =
     (if s = ''Z'' then Some 0
      else if length s = 6 \<and> (s ! 0 = CHR ''+'' \<or> s ! 0 = CHR ''-'') \<and> s ! 3 = CHR '':'' then
        (case (number 2 (take 2 (drop 1 s)), number 2 (drop 4 s)) of
           (Some h, Some mi) \<Rightarrow>
             (if h \<le> 23 \<and> mi \<le> 59
              then Some ((if s ! 0 = CHR ''-'' then - 1 else 1) * ((h * 60 + mi) * 60000))
              else None)
         | _ \<Rightarrow> None)
      else None)"

text \<open>
  The strings of the date-time string format of the language standard that denote an
  instant by themselves: a date form alone, which is midnight UTC of its first day, or
  a date form, \<^verbatim>\<open>T\<close>, a time form and a UTC offset. The result is the time value.
\<close>

definition iso_instant :: "string \<Rightarrow> int option" where
  "iso_instant s =
     (if CHR ''T'' \<in> set s then
        (let d = takeWhile (\<lambda>c. c \<noteq> CHR ''T'') s;
             r = drop (length d + 1) s;
             n = (if r \<noteq> [] \<and> last r = CHR ''Z'' then length r - 1 else length r - 6)
         in case (parse_date d, parse_time (take n r), parse_offset (drop n r)) of
              (Some dn, Some t, Some off) \<Rightarrow> Some (dn * ms_per_day + t - off)
            | _ \<Rightarrow> None)
      else map_option (\<lambda>dn. dn * ms_per_day) (parse_date s))"

text \<open>
  What the host makes of any other string. The standard leaves it to the
  implementation: a date-time without offset is local time, a day beyond the end of
  its month or a fraction of other than three digits is accepted by some engines and
  not by others, and each engine reads further formats of its own. Nothing is assumed
  about it.
\<close>

definition host_Date :: "string \<Rightarrow> jsdate" where
  "host_Date = undefined"

text \<open>\<^verbatim>\<open>new Date(s)\<close> on a string.\<close>

definition Date_new :: "string \<Rightarrow> jsdate" where
  "Date_new s = (case iso_instant s of Some t \<Rightarrow> Time t | None \<Rightarrow> host_Date s)"

text \<open>
  \<^verbatim>\<open>toISOString()\<close>: a RangeError on an Invalid Date (here \<open>None\<close>), else
  \<^verbatim>\<open>YYYY-MM-DDTHH:mm:ss.sssZ\<close> in UTC, the year with a sign and six digits outside
  0 to 9999.
\<close>

definition digit_char :: "int \<Rightarrow> char" where
  "digit_char n = ''0123456789'' ! nat (n mod 10)"

definition pad2 :: "int \<Rightarrow> string" where
  "pad2 n = [digit_char (n div 10), digit_char n]"

definition pad3 :: "int \<Rightarrow> string" where
  "pad3 n = [digit_char (n div 100), digit_char (n div 10), digit_char n]"

definition year_string :: "int \<Rightarrow> string" where
  "year_string y =
     (if 0 \<le> y \<and> y \<le> 9999 then pad2 (y div 100) @ pad2 y
      else (if y < 0 then ''-'' else ''+'') @ pad3 (\<bar>y\<bar> div 1000) @ pad3 \<bar>y\<bar>)"

definition toISOString :: "jsdate \<Rightarrow> string option" where
  "toISOString d =
     (case d of
        InvalidDate \<Rightarrow> None
      | Time t \<Rightarrow>
          (case civil_from_days (t div ms_per_day) of
             (y, m, dd) \<Rightarrow>
               (let r = t mod ms_per_day
                in Some (year_string y @ ''-'' @ pad2 m @ ''-'' @ pad2 dd @ ''T''
                         @ pad2 (r div 3600000) @ '':'' @ pad2 (r div 60000 mod 60) @ '':''
                         @ pad2 (r div 1000 mod 60) @ ''.'' @ pad3 (r mod 1000) @ ''Z''))))"

section \<open>The property detail page\<close>

datatype ModelsRealEstateTransactionType = RealEstateIncome | RealEstateExpense

text \<open>
  The fields of \<^verbatim>\<open>ModelsRealEstateTransaction\<close> that the page reads. Each is optional
  in the generated type: the page guards every read.
\<close>

record ModelsRealEstateTransaction =
  tx_id :: "string option"
  tx_type :: "ModelsRealEstateTransactionType option"
  amount :: "jsnum option"
  transaction_date :: "string option"

text \<open>The component state that the derived values depend on.\<close>

record PropertyDetail =
  transactions :: "ModelsRealEstateTransaction list"
  filterFromDate :: string
  filterToDate :: string

text \<open>
  The callback of \<^verbatim>\<open>transactions.filter\<close>. A missing or empty \<^verbatim>\<open>transaction_date\<close>
  is falsy; an empty bound string gives \<^verbatim>\<open>null\<close>, which skips its test.
\<close>

definition in_range :: "string \<Rightarrow> string \<Rightarrow> ModelsRealEstateTransaction \<Rightarrow> bool" where
  "in_range from_s to_s t =
     (case transaction_date t of
        None \<Rightarrow> True
      | Some ds \<Rightarrow>
          if ds = [] then True
          else
            let transactionDate = Date_new ds;
                fromDate = (if from_s \<noteq> [] then Some (Date_new from_s) else None);
                toDate = (if to_s \<noteq> [] then Some (Date_new to_s) else None)
            in if (case fromDate of None \<Rightarrow> False | Some f \<Rightarrow> date_lt transactionDate f) then False
               else if (case toDate of None \<Rightarrow> False | Some u \<Rightarrow> date_gt transactionDate u) then False
               else True)"

definition filteredTransactions :: "PropertyDetail \<Rightarrow> ModelsRealEstateTransaction list" where
  "filteredTransactions s = filter (in_range (filterFromDate s) (filterToDate s)) (transactions s)"

text \<open>\<^verbatim>\<open>xs.filter(t => t.type === k).reduce((sum, t) => sum + (t.amount || 0), 0)\<close>\<close>

definition sum_of_type ::
  "ModelsRealEstateTransactionType \<Rightarrow> ModelsRealEstateTransaction list \<Rightarrow> jsnum" where
  "sum_of_type k xs =
     foldl (\<lambda>sum t. js_add sum (or_zero (amount t))) (Num 0) (filter (\<lambda>t. tx_type t = Some k) xs)"

definition totalIncome :: "PropertyDetail \<Rightarrow> jsnum" where
  "totalIncome s = sum_of_type RealEstateIncome (transactions s)"

definition totalExpense :: "PropertyDetail \<Rightarrow> jsnum" where
  "totalExpense s = sum_of_type RealEstateExpense (transactions s)"

definition filteredIncome :: "PropertyDetail \<Rightarrow> jsnum" where
  "filteredIncome s = sum_of_type RealEstateIncome (filteredTransactions s)"

definition filteredExpense :: "PropertyDetail \<Rightarrow> jsnum" where
  "filteredExpense s = sum_of_type RealEstateExpense (filteredTransactions s)"

definition balance :: "PropertyDetail \<Rightarrow> jsnum" where
  "balance s = js_sub (totalIncome s) (totalExpense s)"

text \<open>The value shown as Filtered Balance.\<close>

definition filteredBalance :: "PropertyDetail \<Rightarrow> jsnum" where
  "filteredBalance s = js_sub (filteredIncome s) (filteredExpense s)"

text \<open>
  \<^verbatim>\<open>new Date(formData.transaction_date + 'T12:00:00.000Z').toISOString()\<close> in the
  transaction form; \<open>None\<close> is the RangeError.
\<close>

definition fullDateTime :: "string \<Rightarrow> string option" where
  "fullDateTime d = toISOString (Date_new (d @ ''T12:00:00.000Z''))"

text \<open>\<^verbatim>\<open>transaction_date.split('T')[0]\<close>, the day the form shows for an entry.\<close>

definition date_part :: "string \<Rightarrow> string" where
  "date_part ds = takeWhile (\<lambda>c. c \<noteq> CHR ''T'') ds"

section \<open>The specification's wording\<close>


text \<open>
  \<^verbatim>\<open>occurredAt\<close> of section 3, a calendar date without time of day: the day number of
  the date part of \<^verbatim>\<open>transaction_date\<close>, when there is one.
\<close>

definition spec_occurredAt :: "ModelsRealEstateTransaction \<Rightarrow> int option" where
  "spec_occurredAt t =
     (case transaction_date t of None \<Rightarrow> None | Some ds \<Rightarrow> parse_date (date_part ds))"

text \<open>
  The period filter of section 4.1 on calendar dates: an entry is retained if (from is
  absent or occurredAt >= from) and (to is absent or occurredAt <= to), and an entry
  lacking occurredAt is retained. An empty bound is absent.
\<close>

definition spec_retained :: "string \<Rightarrow> string \<Rightarrow> ModelsRealEstateTransaction \<Rightarrow> bool" where
  "spec_retained from_s to_s t =
     (case spec_occurredAt t of
        None \<Rightarrow> True
      | Some d \<Rightarrow>
          (case parse_date from_s of None \<Rightarrow> True | Some f \<Rightarrow> f \<le> d) \<and>
          (case parse_date to_s of None \<Rightarrow> True | Some u \<Rightarrow> d \<le> u))"

text \<open>The two state setters of the date filter; Clear Filters calls both with \<^verbatim>\<open>''\<close>.\<close>

definition setFilterFromDate :: "string \<Rightarrow> PropertyDetail \<Rightarrow> PropertyDetail" where
  "setFilterFromDate v s = s\<lparr>filterFromDate := v\<rparr>"

definition setFilterToDate :: "string \<Rightarrow> PropertyDetail \<Rightarrow> PropertyDetail" where
  "setFilterToDate v s = s\<lparr>filterToDate := v\<rparr>"

section \<open>Category breakdown\<close>

text \<open>
  The pages only display a \<^verbatim>\<open>percentage\<close> field that arrives with the category
  statistics; the computation is not part of the client sources. It is modelled here
  from sections 3 and 4.3 of the specification.
\<close>

text \<open>Modelled from the spec: the kind of an entry or category (section 3).\<close>

datatype Kind = Income | Expense

text \<open>Modelled from the spec: the LedgerEntry of section 3 (no such type in the sources).\<close>

record LedgerEntry =
  entry_id :: string
  entry_amount :: real
  kind :: Kind
  categoryId :: "string option"
  occurredAt :: int

text \<open>Modelled from the spec: the Category of section 3.\<close>

record Category =
  category_id :: string
  category_name :: string
  category_kind :: Kind
  color :: string

text \<open>Modelled from the spec: the error that section 7 rules out for the percentage.\<close>

datatype calc_error = DivisionByZero

text \<open>Modelled from the spec: the CategoryBreakdownEntry of section 3.\<close>

record CategoryBreakdownEntry =
  b_categoryId :: "string option"
  b_name :: string
  b_color :: string
  b_kind :: Kind
  b_amount :: real
  transactionCount :: nat
  percentage :: "calc_error + real"

text \<open>
  Modelled from the spec: the division of section 4.3, as a program performs it: a zero
  divisor is an error, not a value.
\<close>

definition checked_div :: "real \<Rightarrow> real \<Rightarrow> calc_error + real" where
  "checked_div a b = (if b = 0 then Inl DivisionByZero else Inr (a / b))"

text \<open>
  Modelled from the spec: the percentage rule of section 4.3, missing from the sources:
  \<^verbatim>\<open>amount / totalForKind * 100\<close>, and \<^verbatim>\<open>0\<close> when the per-kind total is zero.
\<close>

definition percentage_of :: "real \<Rightarrow> real \<Rightarrow> calc_error + real" where
  "percentage_of amt tot =
     (if tot = 0 then Inr 0
      else case checked_div amt tot of Inl e \<Rightarrow> Inl e | Inr q \<Rightarrow> Inr (q * 100))"

text \<open>
  Modelled from the spec: the sum of all amounts of one kind in the filtered set
  (section 3, \<^verbatim>\<open>totalForKind\<close>), missing from the sources.
\<close>

definition totalForKind :: "Kind \<Rightarrow> LedgerEntry list \<Rightarrow> real" where
  "totalForKind k entries = (\<Sum>e\<leftarrow>filter (\<lambda>e. kind e = k) entries. entry_amount e)"

text \<open>
  Modelled from the spec: the group of an entry (section 4.3), missing from the sources.
  An absent or unknown \<^verbatim>\<open>categoryId\<close> falls into the Unknown bucket, here \<open>None\<close>.
\<close>

definition bucket :: "(string \<rightharpoonup> Category) \<Rightarrow> LedgerEntry \<Rightarrow> string option" where
  "bucket categories e =
     (case categoryId e of
        None \<Rightarrow> None
      | Some c \<Rightarrow> (case categories c of None \<Rightarrow> None | Some _ \<Rightarrow> Some c))"

text \<open>
  Modelled from the spec: the kind of the Unknown bucket is the majority kind of its
  entries (section 4.3); the spec leaves a tie open, Income is taken here.
\<close>

definition majority_kind :: "LedgerEntry list \<Rightarrow> Kind" where
  "majority_kind es =
     (if length (filter (\<lambda>e. kind e = Expense) es) > length (filter (\<lambda>e. kind e = Income) es)
      then Expense else Income)"

text \<open>Modelled from the spec: the fixed neutral colour of the Unknown bucket.\<close>

definition unknown_color :: string where
  "unknown_color = ''neutral''"

text \<open>
  Modelled from the spec: one row of the breakdown (section 4.3), missing from the
  sources: the sum and count of the group, the kind of its category, and the share of
  that kind's total.
\<close>

definition breakdown_row ::
  "LedgerEntry list \<Rightarrow> (string \<rightharpoonup> Category) \<Rightarrow> string option \<Rightarrow> CategoryBreakdownEntry" where
  "breakdown_row entries categories key =
     (let members = filter (\<lambda>e. bucket categories e = key) entries;
          cat = (case key of None \<Rightarrow> None | Some c \<Rightarrow> categories c);
          k = (case cat of None \<Rightarrow> majority_kind members | Some c \<Rightarrow> category_kind c);
          amt = (\<Sum>e\<leftarrow>members. entry_amount e)
      in \<lparr>b_categoryId = key,
          b_name = (case cat of None \<Rightarrow> ''Unknown'' | Some c \<Rightarrow> category_name c),
          b_color = (case cat of None \<Rightarrow> unknown_color | Some c \<Rightarrow> color c),
          b_kind = k,
          b_amount = amt,
          transactionCount = length members,
          percentage = percentage_of amt (totalForKind k entries)\<rparr>)"

text \<open>
  Modelled from the spec: \<^verbatim>\<open>breakdown(entries, categories)\<close> of section 4.3, missing
  from the sources. One row for each group, in the order the groups first occur (the
  contract leaves the order open).
\<close>

definition breakdown ::
  "LedgerEntry list \<Rightarrow> (string \<rightharpoonup> Category) \<Rightarrow> CategoryBreakdownEntry list" where
  "breakdown entries categories =
     map (breakdown_row entries categories) (remdups (map (bucket categories) entries))"

section \<open>Evaluation and helper lemmas\<close>

lemmas date_eval =
  Date_new_def iso_instant_def parse_date_def parse_time_def parse_offset_def time_of_def
  day_number_def number_def digit_def days_in_month_def days_from_civil_def ms_per_day_def
  is_leap_def

lemma js_add_zero_right: "js_add x (Num 0) = x"
  by (cases x) simp_all

lemma round_to_double_not_NaN: "round_to_double x \<noteq> NaN"
  by (simp add: round_to_double_def Let_def)

lemma js_add_Num_not_NaN: "x \<noteq> NaN \<Longrightarrow> js_add x (Num b) \<noteq> NaN"
  by (cases x) (simp_all add: round_to_double_not_NaN)

lemma or_zero_finite:
  "a \<noteq> Some PosInfinity \<Longrightarrow> a \<noteq> Some NegInfinity \<Longrightarrow> \<exists>b. or_zero a = Num b"
  by (cases a rule: or_zero.cases) simp_all

lemma foldl_not_NaN:
  assumes "acc \<noteq> NaN"
      and "\<forall>t\<in>set ys. amount t \<noteq> Some PosInfinity \<and> amount t \<noteq> Some NegInfinity"
  shows "foldl (\<lambda>sum t. js_add sum (or_zero (amount t))) acc ys \<noteq> NaN"
  using assms
proof (induction ys arbitrary: acc)
  case Nil
  then show ?case by simp
next
  case (Cons t ys)
  then obtain b where "or_zero (amount t) = Num b"
    using or_zero_finite[of "amount t"] by auto
  with Cons.prems(1) have "js_add acc (or_zero (amount t)) \<noteq> NaN"
    by (simp add: js_add_Num_not_NaN)
  with Cons show ?case by simp
qed

lemma sum_of_type_not_NaN:
  assumes "\<forall>t\<in>set xs. amount t \<noteq> Some PosInfinity \<and> amount t \<noteq> Some NegInfinity"
  shows "sum_of_type k xs \<noteq> NaN"
  unfolding sum_of_type_def using assms by (intro foldl_not_NaN) auto

lemma sum_of_type_skip:
  "amount t = None \<Longrightarrow> sum_of_type k (xs @ t # ys) = sum_of_type k (xs @ ys)"
  by (simp add: sum_of_type_def js_add_zero_right)



lemma in_range_no_date:
  "transaction_date t = None \<or> transaction_date t = Some [] \<Longrightarrow> in_range from_s to_s t"
  by (auto simp: in_range_def)

lemma in_range_dated:
  assumes "transaction_date t = Some ds" and "ds \<noteq> []"
  shows "in_range from_s to_s t \<longleftrightarrow>
           (from_s = [] \<or> \<not> date_lt (Date_new ds) (Date_new from_s)) \<and>
           (to_s = [] \<or> \<not> date_gt (Date_new ds) (Date_new to_s))"
  using assms by (auto simp: in_range_def Let_def)

lemma total_zero_if_no_entries:
  "\<forall>e\<in>set entries. kind e \<noteq> k \<Longrightarrow> totalForKind k entries = 0"
  by (simp add: totalForKind_def filter_False)


lemma midnight_2024_01_31: "Date_new ''2024-01-31'' = Time 1706659200000"
  by (simp add: date_eval)

lemma noon_2024_01_31: "Date_new ''2024-01-31T12:00:00.000Z'' = Time 1706702400000"
  by (simp add: date_eval)

lemma toISOString_noon_2024_01_31:
  "toISOString (Time 1706702400000) = Some ''2024-01-31T12:00:00.000Z''"
  by code_simp

lemma digits_acc_digit:
  "digits_acc a s = Some v \<Longrightarrow> c \<in> set s \<Longrightarrow> digit c \<noteq> None"
  by (induction s arbitrary: a) (auto split: option.splits)

lemma number_no_T: "number n s = Some v \<Longrightarrow> CHR ''T'' \<notin> set s"
  using digits_acc_digit[of 0 s _ "CHR ''T''"]
  by (auto simp: number_def digit_def split: if_splits)

lemma set_split7:
  assumes "length d = 7"
  shows "set d = set (take 4 d) \<union> {d ! 4} \<union> set (drop 5 d)"
proof -
  have "d = take 4 d @ d ! 4 # drop (Suc 4) d"
    using assms by (intro id_take_nth_drop) simp
  then have "set d = set (take 4 d @ d ! 4 # drop (Suc 4) d)" by simp
  then show ?thesis by simp
qed

lemma set_split10:
  assumes "length d = 10"
  shows "set d = set (take 4 d) \<union> {d ! 4} \<union> set (take 2 (drop 5 d)) \<union> {d ! 7}
           \<union> set (drop 8 d)"
proof -
  let ?e = "drop 5 d"
  have "?e = take 2 ?e @ ?e ! 2 # drop (Suc 2) ?e"
    using assms by (intro id_take_nth_drop) simp
  then have "set ?e = set (take 2 ?e @ ?e ! 2 # drop (Suc 2) ?e)" by simp
  then have e: "set ?e = set (take 2 ?e) \<union> {d ! 7} \<union> set (drop 8 d)"
    using assms by simp
  have "d = take 4 d @ d ! 4 # drop (Suc 4) d"
    using assms by (intro id_take_nth_drop) simp
  then have "set d = set (take 4 d @ d ! 4 # drop (Suc 4) d)" by simp
  then show ?thesis using e by auto
qed

lemma parse_date_no_T:
  assumes "parse_date d = Some dn"
  shows "CHR ''T'' \<notin> set d"
proof -
  consider (y) "length d = 4" "number 4 d \<noteq> None"
    | (ym) "length d = 7" "d ! 4 = CHR ''-''" "number 4 (take 4 d) \<noteq> None"
        "number 2 (drop 5 d) \<noteq> None"
    | (ymd) "length d = 10" "d ! 4 = CHR ''-''" "d ! 7 = CHR ''-''"
        "number 4 (take 4 d) \<noteq> None" "number 2 (take 2 (drop 5 d)) \<noteq> None"
        "number 2 (drop 8 d) \<noteq> None"
    using assms by (auto simp: parse_date_def split: if_splits option.splits)
  then show ?thesis
  proof cases
    case y
    then show ?thesis using number_no_T by blast
  next
    case ym
    then show ?thesis using number_no_T set_split7[OF ym(1)] by auto
  next
    case ymd
    then show ?thesis using number_no_T set_split10[OF ymd(1)] by auto
  qed
qed

text \<open>
  For every date form \<open>d\<close>, the string the transaction form builds from it is the
  instant twelve hours after the instant that \<open>d\<close> denotes as a filter bound.
\<close>

lemma noon_after_midnight:
  assumes "parse_date d = Some dn"
  shows "Date_new d = Time (dn * ms_per_day)"
    and "Date_new (d @ ''T12:00:00.000Z'') = Time (dn * ms_per_day + 43200000)"
proof -
  have noT: "CHR ''T'' \<notin> set d" using assms by (rule parse_date_no_T)
  then show "Date_new d = Time (dn * ms_per_day)"
    using assms by (simp add: Date_new_def iso_instant_def)
  have "\<And>x. x \<in> set d \<Longrightarrow> x \<noteq> CHR ''T''" using noT by auto
  then have "takeWhile (\<lambda>c. c \<noteq> CHR ''T'') (d @ ''T12:00:00.000Z'')
               = d @ takeWhile (\<lambda>c. c \<noteq> CHR ''T'') ''T12:00:00.000Z''"
    by (rule takeWhile_append2)
  then have tw: "takeWhile (\<lambda>c. c \<noteq> CHR ''T'') (d @ ''T12:00:00.000Z'') = d"
    by simp
  have noon: "parse_time ''12:00:00.000'' = Some 43200000"
    by (simp add: parse_time_def time_of_def number_def digit_def)
  have utc: "parse_offset ''Z'' = Some 0"
    by (simp add: parse_offset_def)
  show "Date_new (d @ ''T12:00:00.000Z'') = Time (dn * ms_per_day + 43200000)"
    using assms noon utc by (simp add: Date_new_def iso_instant_def tw)
qed

text \<open>
  Hence an entry stamped at noon UTC of day \<open>d\<close>, as the form stamps it, never passes
  the filter when the To Date is \<open>d\<close>, whatever the From Date, while it passes when
  \<open>d\<close> is the From Date and no To Date is set.
\<close>

lemma form_entry_excluded_on_to_date:
  assumes "parse_date d = Some dn" and "transaction_date t = Some (d @ ''T12:00:00.000Z'')"
  shows "\<not> in_range from_s d t"
proof -
  have "d \<noteq> []" using assms(1) by (auto simp: parse_date_def)
  then show ?thesis
    using assms(2) noon_after_midnight[OF assms(1)] by (simp add: in_range_dated)
qed

lemma form_entry_included_on_from_date:
  assumes "parse_date d = Some dn" and "transaction_date t = Some (d @ ''T12:00:00.000Z'')"
  shows "in_range d [] t"
  using assms(2) noon_after_midnight[OF assms(1)] by (simp add: in_range_dated)

text \<open>The model rounds: \<open>2 ^ 53 + 1\<close> is not a double.\<close>

lemma double_sum_rounds: "js_add (Num (2 ^ 53)) (Num 1) = Num (2 ^ 53)"
  by (simp add: round_to_double_def exponent_def round_half_even_def compute_bitlen Let_def)

text \<open>When both totals are the same infinity, their difference is \<^verbatim>\<open>NaN\<close>.\<close>

lemma balance_of_infinite_totals:
  "balance \<lparr>transactions =
       [\<lparr>tx_id = Some ''a'', tx_type = Some RealEstateIncome, amount = Some PosInfinity,
          transaction_date = None\<rparr>,
        \<lparr>tx_id = Some ''b'', tx_type = Some RealEstateExpense, amount = Some PosInfinity,
          transaction_date = None\<rparr>],
     filterFromDate = [], filterToDate = []\<rparr> = NaN"
  by (simp add: balance_def totalIncome_def totalExpense_def sum_of_type_def js_sub_def)

section \<open>Period filter\<close>

text \<open>
  C1. An entry dated exactly on the From Date or exactly on the To Date is to be
  included. The code keeps the entry of the From Date but drops the entry of the To
  Date: the transaction form saves day 2024-01-31 as 2024-01-31T12:00:00.000Z, the
  bound 2024-01-31 is midnight UTC of that day, and the test
  \<^verbatim>\<open>transactionDate > toDate\<close> rejects the entry. With To Date 2024-01-31 the
  filter returns the empty list for this entry; with From Date 2024-01-31 it keeps it.
\<close>

theorem to_date_entry_excluded:
  "fullDateTime ''2024-01-31'' = Some ''2024-01-31T12:00:00.000Z'' \<and>
   date_part ''2024-01-31T12:00:00.000Z'' = ''2024-01-31'' \<and>
   filteredTransactions
     \<lparr>transactions = [\<lparr>tx_id = Some ''t1'', tx_type = Some RealEstateIncome,
          amount = Some (Num 100), transaction_date = Some ''2024-01-31T12:00:00.000Z''\<rparr>],
      filterFromDate = [], filterToDate = ''2024-01-31''\<rparr> = [] \<and>
   filteredTransactions
     \<lparr>transactions = [\<lparr>tx_id = Some ''t1'', tx_type = Some RealEstateIncome,
          amount = Some (Num 100), transaction_date = Some ''2024-01-31T12:00:00.000Z''\<rparr>],
      filterFromDate = ''2024-01-31'', filterToDate = []\<rparr>
     = [\<lparr>tx_id = Some ''t1'', tx_type = Some RealEstateIncome,
          amount = Some (Num 100), transaction_date = Some ''2024-01-31T12:00:00.000Z''\<rparr>]"
  by (simp add: fullDateTime_def date_part_def filteredTransactions_def in_range_def
      midnight_2024_01_31 noon_2024_01_31 toISOString_noon_2024_01_31)

text \<open>
  C2. The filter is to retain an entry if and only if (from is absent or the entry's
  date >= from) and (to is absent or the entry's date <= to). For the entry of
  2024-03-15 and the range from 2024-03-01 to 2024-03-15 that condition holds on the
  calendar dates, yet the code drops the entry: it compares the entry's instant, noon
  UTC of its day, with midnight UTC of the To Date.
\<close>

theorem period_filter_drops_entry_of_to_date:
  "spec_occurredAt \<lparr>tx_id = Some ''t2'', tx_type = Some RealEstateExpense,
       amount = Some (Num 40), transaction_date = Some ''2024-03-15T12:00:00.000Z''\<rparr>
     = parse_date ''2024-03-15'' \<and>
   spec_retained ''2024-03-01'' ''2024-03-15''
     \<lparr>tx_id = Some ''t2'', tx_type = Some RealEstateExpense,
       amount = Some (Num 40), transaction_date = Some ''2024-03-15T12:00:00.000Z''\<rparr> \<and>
   filteredTransactions
     \<lparr>transactions = [\<lparr>tx_id = Some ''t2'', tx_type = Some RealEstateExpense,
          amount = Some (Num 40), transaction_date = Some ''2024-03-15T12:00:00.000Z''\<rparr>],
      filterFromDate = ''2024-03-01'', filterToDate = ''2024-03-15''\<rparr> = []"
  by (simp add: spec_retained_def spec_occurredAt_def date_part_def filteredTransactions_def
      in_range_def date_eval)

text \<open>
  C6. The period filter is idempotent: running it, with the same two bounds, on the
  list it has produced gives that list again.
\<close>

theorem filteredTransactions_idempotent:
  "filteredTransactions (s\<lparr>transactions := filteredTransactions s\<rparr>) = filteredTransactions s"
  by (simp add: filteredTransactions_def)

text \<open>
  C7. The output of the period filter is a subsequence of the transaction list: the
  retained entries appear in their original relative order, none is duplicated and
  none is invented.
\<close>

theorem filteredTransactions_subseq:
  "subseq (filteredTransactions s) (transactions s)"
  by (simp add: filteredTransactions_def)

section \<open>Aggregator\<close>



text \<open>
  C5. For the empty transaction list, whatever the bounds, total income, total expense
  and balance are 0, the list has 0 entries, and the filtered list and the filtered
  sums are empty and 0 as well.
\<close>

theorem empty_list_all_zero:
  "totalIncome \<lparr>transactions = [], filterFromDate = f, filterToDate = u\<rparr> = Num 0 \<and>
   totalExpense \<lparr>transactions = [], filterFromDate = f, filterToDate = u\<rparr> = Num 0 \<and>
   balance \<lparr>transactions = [], filterFromDate = f, filterToDate = u\<rparr> = Num 0 \<and>
   length (transactions \<lparr>transactions = [], filterFromDate = f, filterToDate = u\<rparr>) = 0 \<and>
   filteredTransactions \<lparr>transactions = [], filterFromDate = f, filterToDate = u\<rparr> = [] \<and>
   filteredIncome \<lparr>transactions = [], filterFromDate = f, filterToDate = u\<rparr> = Num 0 \<and>
   filteredExpense \<lparr>transactions = [], filterFromDate = f, filterToDate = u\<rparr> = Num 0 \<and>
   filteredBalance \<lparr>transactions = [], filterFromDate = f, filterToDate = u\<rparr> = Num 0"
  by (simp add: balance_def filteredBalance_def totalIncome_def totalExpense_def
      filteredIncome_def filteredExpense_def filteredTransactions_def sum_of_type_def
      js_sub_def)

text \<open>
  C9. Setting the From Date and the To Date leaves the transaction list, total income,
  total expense and the balance as they were: the cards at the top are computed from
  all transactions, for every choice of bounds.
\<close>

theorem totals_ignore_filter_bounds:
  "transactions (setFilterToDate u (setFilterFromDate f s)) = transactions s \<and>
   totalIncome (setFilterToDate u (setFilterFromDate f s)) = totalIncome s \<and>
   totalExpense (setFilterToDate u (setFilterFromDate f s)) = totalExpense s \<and>
   balance (setFilterToDate u (setFilterFromDate f s)) = balance s"
  by (simp add: setFilterFromDate_def setFilterToDate_def balance_def totalIncome_def
      totalExpense_def)

text \<open>
  C10. The sums are to be numbers for every input, never \<^verbatim>\<open>NaN\<close>. They are not:
  two income entries with the amounts \<^verbatim>\<open>Infinity\<close> and \<^verbatim>\<open>-Infinity\<close>, which
  \<^verbatim>\<open>|| 0\<close> keeps, sum to \<^verbatim>\<open>NaN\<close>.
\<close>

theorem opposite_infinities_sum_counterexample:
  "totalIncome
     \<lparr>transactions =
        [\<lparr>tx_id = Some ''a'', tx_type = Some RealEstateIncome, amount = Some PosInfinity,
           transaction_date = None\<rparr>,
         \<lparr>tx_id = Some ''b'', tx_type = Some RealEstateIncome, amount = Some NegInfinity,
           transaction_date = None\<rparr>],
      filterFromDate = [], filterToDate = []\<rparr> = NaN"
  by (simp add: totalIncome_def sum_of_type_def)

text \<open>
  C10, amended. When no entry has an infinite amount, the four sums are never
  \<^verbatim>\<open>NaN\<close>, also when an amount is missing or is itself \<^verbatim>\<open>NaN\<close>. An entry without an
  amount adds 0 to total income and total expense, and is still an entry of the list.
\<close>

theorem sums_not_NaN_for_finite_amounts:
  "((\<forall>t\<in>set (transactions s). amount t \<noteq> Some PosInfinity \<and> amount t \<noteq> Some NegInfinity) \<longrightarrow>
      totalIncome s \<noteq> NaN \<and> totalExpense s \<noteq> NaN \<and>
      filteredIncome s \<noteq> NaN \<and> filteredExpense s \<noteq> NaN) \<and>
   (amount t = None \<longrightarrow>
      totalIncome (s\<lparr>transactions := xs @ t # ys\<rparr>) = totalIncome (s\<lparr>transactions := xs @ ys\<rparr>) \<and>
      totalExpense (s\<lparr>transactions := xs @ t # ys\<rparr>) = totalExpense (s\<lparr>transactions := xs @ ys\<rparr>) \<and>
      length (transactions (s\<lparr>transactions := xs @ t # ys\<rparr>)) = Suc (length (xs @ ys)))"
proof (intro conjI impI)
  assume fin: "\<forall>t\<in>set (transactions s). amount t \<noteq> Some PosInfinity \<and> amount t \<noteq> Some NegInfinity"
  then have "\<forall>t\<in>set (filteredTransactions s).
      amount t \<noteq> Some PosInfinity \<and> amount t \<noteq> Some NegInfinity"
    by (simp add: filteredTransactions_def)
  with fin show "totalIncome s \<noteq> NaN" "totalExpense s \<noteq> NaN"
    "filteredIncome s \<noteq> NaN" "filteredExpense s \<noteq> NaN"
    by (simp_all add: totalIncome_def totalExpense_def filteredIncome_def filteredExpense_def
        sum_of_type_not_NaN)
next
  assume "amount t = None"
  then show "totalIncome (s\<lparr>transactions := xs @ t # ys\<rparr>) = totalIncome (s\<lparr>transactions := xs @ ys\<rparr>)"
    "totalExpense (s\<lparr>transactions := xs @ t # ys\<rparr>) = totalExpense (s\<lparr>transactions := xs @ ys\<rparr>)"
    by (simp_all add: totalIncome_def totalExpense_def sum_of_type_skip)
next
  show "length (transactions (s\<lparr>transactions := xs @ t # ys\<rparr>)) = Suc (length (xs @ ys))"
    by simp
qed

theorem sums_not_NaN_for_finite_amounts_witness:
  "totalIncome \<lparr>transactions =
       [\<lparr>tx_id = Some ''a'', tx_type = Some RealEstateIncome, amount = Some (Num 100),
          transaction_date = None\<rparr>,
        \<lparr>tx_id = Some ''b'', tx_type = Some RealEstateIncome, amount = None,
          transaction_date = None\<rparr>],
     filterFromDate = [], filterToDate = []\<rparr> = Num 100 \<and>
   totalExpense \<lparr>transactions =
       [\<lparr>tx_id = Some ''a'', tx_type = Some RealEstateIncome, amount = Some (Num 100),
          transaction_date = None\<rparr>,
        \<lparr>tx_id = Some ''b'', tx_type = Some RealEstateIncome, amount = None,
          transaction_date = None\<rparr>],
     filterFromDate = [], filterToDate = []\<rparr> \<noteq> NaN \<and>
   length (transactions \<lparr>transactions =
       [\<lparr>tx_id = Some ''a'', tx_type = Some RealEstateIncome, amount = Some (Num 100),
          transaction_date = None\<rparr>,
        \<lparr>tx_id = Some ''b'', tx_type = Some RealEstateIncome, amount = None,
          transaction_date = None\<rparr>],
     filterFromDate = [], filterToDate = []\<rparr>) = 2"
proof -
  let ?a = "\<lparr>tx_id = Some ''a'', tx_type = Some RealEstateIncome, amount = Some (Num 100),
          transaction_date = None\<rparr>"
  let ?b = "\<lparr>tx_id = Some ''b'', tx_type = Some RealEstateIncome, amount = None,
          transaction_date = None\<rparr>"
  let ?s = "\<lparr>transactions = [?a, ?b], filterFromDate = [], filterToDate = []\<rparr>"
  have fin: "\<forall>t\<in>set (transactions ?s).
      amount t \<noteq> Some PosInfinity \<and> amount t \<noteq> Some NegInfinity"
    by simp
  have none: "amount ?b = None" by simp
  have base: "totalIncome (?s\<lparr>transactions := [?a] @ []\<rparr>) = Num 100"
    by (simp add: totalIncome_def sum_of_type_def)
  from sums_not_NaN_for_finite_amounts [of ?s ?b "[?a]" "[]"] fin none
  have "totalExpense ?s \<noteq> NaN \<and>
        totalIncome (?s\<lparr>transactions := [?a] @ ?b # []\<rparr>)
          = totalIncome (?s\<lparr>transactions := [?a] @ []\<rparr>) \<and>
        length (transactions (?s\<lparr>transactions := [?a] @ ?b # []\<rparr>)) = Suc (length ([?a] @ []))"
    by blast
  with base show ?thesis by simp
qed

section \<open>Category breakdown: a zero per-kind total\<close>

text \<open>
  C8. In the category breakdown, a row whose kind has a per-kind total of zero, in
  particular when the filtered set has no entry of that kind, has percentage 0: the
  value is 0 and not a division error.
\<close>

theorem breakdown_zero_total_percentage:
  assumes "b \<in> set (breakdown entries categories)"
      and "totalForKind (b_kind b) entries = 0 \<or> (\<forall>e\<in>set entries. kind e \<noteq> b_kind b)"
  shows "percentage b = Inr 0"
proof -
  from assms(2) have zero: "totalForKind (b_kind b) entries = 0"
    using total_zero_if_no_entries by blast
  from assms(1) obtain key where b: "b = breakdown_row entries categories key"
    by (auto simp: breakdown_def)
  have "percentage b = percentage_of (b_amount b) (totalForKind (b_kind b) entries)"
    by (simp add: b breakdown_row_def Let_def)
  with zero show ?thesis by (simp add: percentage_of_def)
qed

text \<open>
  An income entry filed under an expense category: the filtered set has no expense
  entry, the row of the category has kind expense and amount 100, and dividing by the
  per-kind total would be a division by zero.
\<close>

theorem breakdown_zero_total_percentage_witness:
  "\<lparr>b_categoryId = Some ''rent'', b_name = ''Rent'', b_color = ''red'', b_kind = Expense,
     b_amount = 100, transactionCount = 1, percentage = Inr 0\<rparr>
     \<in> set (breakdown
         [\<lparr>entry_id = ''e1'', entry_amount = 100, kind = Income, categoryId = Some ''rent'',
           occurredAt = 19753\<rparr>]
         [''rent'' \<mapsto> \<lparr>category_id = ''rent'', category_name = ''Rent'',
            category_kind = Expense, color = ''red''\<rparr>]) \<and>
   totalForKind Expense
     [\<lparr>entry_id = ''e1'', entry_amount = 100, kind = Income, categoryId = Some ''rent'',
       occurredAt = 19753\<rparr>] = 0 \<and>
   checked_div 100 (totalForKind Expense
     [\<lparr>entry_id = ''e1'', entry_amount = 100, kind = Income, categoryId = Some ''rent'',
       occurredAt = 19753\<rparr>]) = Inl DivisionByZero"
proof -
  let ?E = "[\<lparr>entry_id = ''e1'', entry_amount = 100, kind = Income, categoryId = Some ''rent'',
           occurredAt = 19753\<rparr>]"
  let ?C = "[''rent'' \<mapsto> \<lparr>category_id = ''rent'', category_name = ''Rent'',
            category_kind = Expense, color = ''red''\<rparr>]"
  let ?b = "breakdown_row ?E ?C (Some ''rent'')"
  have mem: "?b \<in> set (breakdown ?E ?C)"
    by (simp add: breakdown_def bucket_def)
  have kind: "b_kind ?b = Expense"
    by (simp add: breakdown_row_def bucket_def)
  have tot: "totalForKind (b_kind ?b) ?E = 0"
    by (simp add: kind totalForKind_def)
  have "percentage ?b = Inr 0"
    using breakdown_zero_total_percentage [OF mem] tot by blast
  moreover have "?b = \<lparr>b_categoryId = Some ''rent'', b_name = ''Rent'', b_color = ''red'',
     b_kind = Expense, b_amount = 100, transactionCount = 1, percentage = percentage ?b\<rparr>"
    by (simp add: breakdown_row_def bucket_def)
  ultimately show ?thesis using mem
    by (simp add: totalForKind_def checked_div_def)
qed

end
